theory Spec2Isabelle
  imports Main "HOL-Library.Word"
begin

section \<open>Data model (src/main.go, lines 17-59)\<close>

text \<open>
  Go's \<^verbatim>\<open>uint32\<close> and \<^verbatim>\<open>byte\<close> are words. Go's \<^verbatim>\<open>int\<close> is \<^typ>\<open>int\<close>: the
  program compares it (\<^verbatim>\<open><=\<close>, \<^verbatim>\<open>== 0\<close>) and computes with it once, the product of
  line 301 in \<^verbatim>\<open>run\<close>, whose wrap-around in 64 bits is written out where \<^verbatim>\<open>run\<close> is
  modelled.
\<close>

type_synonym uint32 = "32 word"
type_synonym byte = "8 word"
type_synonym int32 = "32 word" \<comment> \<open>read with \<open>sint\<close>\<close>

text \<open>
  A Go \<^verbatim>\<open>error\<close> value: an opaque error of a library (its message), or
  \<^verbatim>\<open>fmt.Errorf(format, err)\<close> wrapping another one with \<^verbatim>\<open>%w\<close>.
  A \<^verbatim>\<open>nil\<close> error is \<open>None\<close> of \<open>error option\<close>; a Go result
  \<^verbatim>\<open>(T, error)\<close> is \<open>error + 'a\<close> with \<open>Inl\<close> the error.
\<close>

datatype error = Error string | Errorf string error

record BatteryLevel =
  Threshold :: int
  Title :: string
  Icon :: string
  Sound :: string
  Message :: string

record Config =
  AppName :: string
  PollInterval :: int
  LowBattery :: BatteryLevel
  CriticalBattery :: BatteryLevel

text \<open>The zero values Go gives to \<^verbatim>\<open>var level BatteryLevel\<close> and \<^verbatim>\<open>var config Config\<close>.\<close>

definition zero_BatteryLevel :: BatteryLevel where
  "zero_BatteryLevel = \<lparr>Threshold = 0, Title = [], Icon = [], Sound = [], Message = []\<rparr>"

definition zero_Config :: Config where
  "zero_Config = \<lparr>AppName = [], PollInterval = 0,
     LowBattery = zero_BatteryLevel, CriticalBattery = zero_BatteryLevel\<rparr>"

text \<open>
  The \<^verbatim>\<open>Monitor\<close> struct. Its fields \<^verbatim>\<open>battery\<close> and \<^verbatim>\<open>notifier\<close> are interface
  values, the collaborators of \<^verbatim>\<open>check\<close>; what they answer during one check is the
  record \<open>tick\<close> below.
\<close>

record Monitor =
  config :: Config
  currentLevel :: string
  notificationID :: uint32

section \<open>loadConfig (lines 61-83)\<close>

text \<open>
  \<^verbatim>\<open>os.ReadFile\<close> and \<^verbatim>\<open>yaml.Unmarshal\<close> are library code: they are parameters.
  \<open>yaml_Unmarshal data c\<close> is what decoding \<open>data\<close> into the struct \<open>c\<close> leaves
  in it, or the decoder's error.
\<close>

definition loadConfig ::
  "(string \<Rightarrow> error + string) \<Rightarrow> (string \<Rightarrow> Config \<Rightarrow> error + Config) \<Rightarrow> string
     \<Rightarrow> error + Config" where
  "loadConfig os_ReadFile yaml_Unmarshal path =
     (case os_ReadFile path of
        Inl err \<Rightarrow> Inl err
      | Inr data \<Rightarrow>
         (case yaml_Unmarshal data zero_Config of
            Inl err \<Rightarrow> Inl err
          | Inr parsed \<Rightarrow>
             (let c1 = (if PollInterval parsed = 0 then parsed\<lparr>PollInterval := 5\<rparr> else parsed);
                  c2 = (if AppName c1 = [] then c1\<lparr>AppName := ''Battery Monitor''\<rparr> else c1)
              in Inr c2)))"

section \<open>DBusNotifier (lines 132-191)\<close>

text \<open>
  The D-Bus object is the transport. A method call on it is recorded in \<open>performed\<close>,
  and \<open>reply\<close> (the session bus, not this program) decides the \<^verbatim>\<open>*dbus.Call\<close> that
  comes back: its \<^verbatim>\<open>Err\<close> field and what \<^verbatim>\<open>Store(&id)\<close> gives.
\<close>

datatype Variant = MakeVariant_byte byte | MakeVariant_bool bool

datatype method_call =
    Notify string uint32 string string string "string list" "string \<rightharpoonup> Variant" int32
  | CloseNotification uint32

record Call =
  Err :: "error option"
  Store :: "error + uint32"

record BusObject =
  performed :: "method_call list"
  reply :: "method_call list \<Rightarrow> method_call \<Rightarrow> Call"

record DBusNotifier =
  obj :: BusObject
  appName :: string

definition obj_Call :: "method_call \<Rightarrow> BusObject \<Rightarrow> Call \<times> BusObject" where
  "obj_Call c b = (reply b (performed b) c, b\<lparr>performed := performed b @ [c]\<rparr>)"

text \<open>The \<^verbatim>\<open>switch urgency\<close> of \<^verbatim>\<open>Send\<close> (lines 149-157).\<close>

definition urgencyLevel :: "string \<Rightarrow> byte" where
  "urgencyLevel urgency =
     (if urgency = ''critical'' then 2 else if urgency = ''normal'' then 1 else 0)"

definition DBusNotifier_Send ::
  "DBusNotifier \<Rightarrow> string \<Rightarrow> string \<Rightarrow> string \<Rightarrow> string \<Rightarrow> (error + uint32) \<times> DBusNotifier" where
  "DBusNotifier_Send n summary body urgency icon =
     (let hints = [''urgency'' \<mapsto> MakeVariant_byte (urgencyLevel urgency),
                   ''resident'' \<mapsto> MakeVariant_bool True,
                   ''transient'' \<mapsto> MakeVariant_bool False];
          (call, b) = obj_Call (Notify (appName n) 0 icon summary body [] hints 0) (obj n)
      in (case Err call of
            Some err \<Rightarrow> (Inl err, n\<lparr>obj := b\<rparr>)
          | None \<Rightarrow> (Store call, n\<lparr>obj := b\<rparr>)))"

definition DBusNotifier_Close :: "DBusNotifier \<Rightarrow> uint32 \<Rightarrow> error option \<times> DBusNotifier" where
  "DBusNotifier_Close n ident =
     (if ident = 0 then (None, n)
      else (let (call, b) = obj_Call (CloseNotification ident) (obj n)
            in (Err call, n\<lparr>obj := b\<rparr>)))"

section \<open>Monitor (lines 193-311)\<close>

text \<open>
  \<^verbatim>\<open>check\<close> calls each method of its two collaborators at most once, so one check is
  determined by the monitor and by what each method would answer: the record \<open>tick\<close>.
  Every implementation of the Go interfaces \<^verbatim>\<open>Battery\<close> and \<^verbatim>\<open>Notifier\<close> behaves, in one
  check, as some \<open>tick\<close> does, and a theorem for all ticks covers them all.
\<close>

record tick =
  IsCharging :: "error + bool"
  Capacity :: "error + int"
  Send :: "error + uint32"
  Close :: "error option"

text \<open>
  What a check does besides updating the monitor, in the order of the source: the calls
  on the battery and the notifier with their arguments, the calls of \<^verbatim>\<open>m.playSound\<close>
  (each with the file it is given) and the log lines. \<^verbatim>\<open>fmt.Sprintf\<close> and the \<^verbatim>\<open>log\<close> package are library code: a
  formatted text is kept as its format string and arguments.
\<close>

datatype arg = ArgInt int | ArgStr string | ArgErr error

datatype formatted = Sprintf string "arg list"

datatype call =
    Battery_IsCharging
  | Battery_Capacity
  | Notifier_Send string formatted string string
  | Notifier_Close uint32
  | playSound string
  | log_Println string
  | log_Printf string "arg list"

text \<open>Lines 243-255 of \<^verbatim>\<open>check\<close>: \<^verbatim>\<open>newLevel\<close> and \<^verbatim>\<open>level\<close> from the capacity read.\<close>

definition determine_level :: "Config \<Rightarrow> int \<Rightarrow> string \<times> BatteryLevel" where
  "determine_level cfg capacity =
     (if capacity \<le> Threshold (CriticalBattery cfg) then (''critical'', CriticalBattery cfg)
      else if capacity \<le> Threshold (LowBattery cfg) then (''low'', LowBattery cfg)
      else (''normal'', zero_BatteryLevel))"

text \<open>
  The log line after a \<^verbatim>\<open>Close\<close> whose error is checked (lines 227-229 and 280-282).
\<close>

definition log_close_failure :: "error option \<Rightarrow> call list" where
  "log_close_failure r =
     (case r of
        Some err \<Rightarrow> [log_Printf ''Failed to close notification: %v'' [ArgErr err]]
      | None \<Rightarrow> [])"

text \<open>
  \<^verbatim>\<open>check\<close> (lines 217-288): the error returned, the monitor afterwards and the calls
  made, in order.
\<close>

definition check :: "tick \<Rightarrow> Monitor \<Rightarrow> error option \<times> Monitor \<times> call list" where
  "check t m =
     (case IsCharging t of
        Inl err \<Rightarrow> (Some (Errorf ''read charging status: %w'' err), m, [Battery_IsCharging])
      | Inr charging \<Rightarrow>
         if charging then
           (if currentLevel m \<noteq> ''normal'' then
              (None, m\<lparr>notificationID := 0, currentLevel := ''normal''\<rparr>,
               [Battery_IsCharging,
                log_Println ''Power connected, clearing notifications'',
                Notifier_Close (notificationID m)] @ log_close_failure (Close t))
            else (None, m, [Battery_IsCharging]))
         else
           (case Capacity t of
              Inl err \<Rightarrow>
                (Some (Errorf ''read capacity: %w'' err), m, [Battery_IsCharging, Battery_Capacity])
            | Inr capacity \<Rightarrow>
               (let (newLevel, level) = determine_level (config m) capacity;
                    reads = [Battery_IsCharging, Battery_Capacity,
                             log_Printf ''Battery: %d%% (discharging)'' [ArgInt capacity]]
                in
                if newLevel \<noteq> currentLevel m \<and> newLevel \<noteq> ''normal'' then
                  (let title = Title level;
                       message = Sprintf (Message level) [ArgInt capacity];
                       sent = reads @
                         [log_Printf ''Battery level changed to: %s (%d%%)''
                            [ArgStr newLevel, ArgInt capacity],
                          Notifier_Send title message ''critical'' (Icon level)]
                   in
                   (case Send t of
                      Inl err \<Rightarrow>
                        (None, m\<lparr>currentLevel := newLevel\<rparr>,
                         sent @ [log_Printf ''Failed to send notification: %v'' [ArgErr err],
                                 playSound (Sound level)])
                    | Inr new_id \<Rightarrow>
                        (None, m\<lparr>notificationID := new_id, currentLevel := newLevel\<rparr>,
                         sent @
                         (if notificationID m \<noteq> 0 \<and> notificationID m \<noteq> new_id
                          then [Notifier_Close (notificationID m)] else []) @
                         [playSound (Sound level)])))
                else if newLevel = ''normal'' \<and> currentLevel m \<noteq> ''normal'' then
                  (None, m\<lparr>notificationID := 0, currentLevel := ''normal''\<rparr>,
                   reads @ [Notifier_Close (notificationID m)] @ log_close_failure (Close t))
                else (None, m, reads))))"

text \<open>
  Successive checks, as the startup check (lines 297-299) and the body of the ticker
  loop (lines 304-308) make them: a failed check is logged and the next one is made.
  \<open>checks ts m\<close> is the monitor after one check for each tick of \<open>ts\<close>, and all the
  calls made.
\<close>

fun checks :: "tick list \<Rightarrow> Monitor \<Rightarrow> Monitor \<times> call list" where
  "checks [] m = (m, [])"
| "checks (t # ts) m =
     (case check t m of
        (failure, m', calls) \<Rightarrow>
          (case checks ts m' of
             (m'', later) \<Rightarrow>
               (m'',
                calls @
                (case failure of
                   Some err \<Rightarrow> [log_Printf ''Check failed: %v'' [ArgErr err]]
                 | None \<Rightarrow> []) @
                later)))"

text \<open>
  \<^verbatim>\<open>time.Duration(m.config.PollInterval) * time.Second\<close> (line 301): a product of
  \<^verbatim>\<open>int64\<close> values, in nanoseconds, which wraps around.
\<close>

definition ticker_duration :: "int \<Rightarrow> int" where
  "ticker_duration poll_interval = sint (word_of_int (poll_interval * 1000000000) :: 64 word)"

text \<open>
  \<^verbatim>\<open>run\<close> (lines 290-311) logs two lines, checks once, creates the ticker and then
  checks at every tick of it, for ever. \<^verbatim>\<open>time.NewTicker\<close> is library code: it panics
  when the duration it is given is not positive. \<open>run ts m\<close> is \<^verbatim>\<open>run\<close> as far as the
  ticks \<open>ts\<close> take it, the first of them answering the startup check: whether it is still
  polling or has panicked, the monitor, and all the calls made. After a panic no further
  check is made.
\<close>

datatype status = Polling | Panic string

definition run :: "tick list \<Rightarrow> Monitor \<Rightarrow> status \<times> Monitor \<times> call list" where
  "run ts m =
     (let started =
            [log_Printf ''Starting battery monitor (poll interval: %ds)''
               [ArgInt (PollInterval (config m))],
             log_Printf ''Low threshold: %d%%, Critical threshold: %d%%''
               [ArgInt (Threshold (LowBattery (config m))),
                ArgInt (Threshold (CriticalBattery (config m)))]]
      in case ts of
           [] \<Rightarrow> (Polling, m, started)
         | t # ticks \<Rightarrow>
            (case checks [t] m of
               (m', initial) \<Rightarrow>
                 if ticker_duration (PollInterval (config m')) \<le> 0
                 then (Panic ''non-positive interval for NewTicker'', m', started @ initial)
                 else (case checks ticks m' of
                         (m'', polled) \<Rightarrow> (Polling, m'', started @ initial @ polled))))"

text \<open>The monitor \<^verbatim>\<open>main\<close> builds (lines 342-347); \<^verbatim>\<open>notificationID\<close> has Go's zero value.\<close>

definition main_monitor :: "Config \<Rightarrow> Monitor" where
  "main_monitor cfg = \<lparr>config = cfg, currentLevel = ''normal'', notificationID = 0\<rparr>"

text \<open>The calls of a check that reach the notifier, and the two kinds apart.\<close>

fun is_Send :: "call \<Rightarrow> bool" where
  "is_Send (Notifier_Send title message urgency icon) = True"
| "is_Send c = False"

fun is_Close :: "call \<Rightarrow> bool" where
  "is_Close (Notifier_Close ident) = True"
| "is_Close c = False"

definition sends :: "call list \<Rightarrow> call list" where
  "sends cs = filter is_Send cs"

definition closes :: "call list \<Rightarrow> call list" where
  "closes cs = filter is_Close cs"

definition notifier_calls :: "call list \<Rightarrow> call list" where
  "notifier_calls cs = filter (\<lambda>c. is_Send c \<or> is_Close c) cs"

section \<open>The specification's reference definitions\<close>

text \<open>
  The classifier as section 4.4 of the specification words it, to be compared with
  \<open>determine_level\<close> and \<open>check\<close>; the severity order normal < low < critical of its
  monotonicity property; and the invariant of its data model.
\<close>

definition spec_classify :: "int \<Rightarrow> bool \<Rightarrow> BatteryLevel \<Rightarrow> BatteryLevel \<Rightarrow> string" where
  "spec_classify capacity charging lowSpec criticalSpec =
     (if charging then ''normal''
      else if capacity \<le> Threshold criticalSpec then ''critical''
      else if capacity \<le> Threshold lowSpec then ''low''
      else ''normal'')"

definition severity :: "string \<Rightarrow> nat" where
  "severity l = (if l = ''critical'' then 2 else if l = ''low'' then 1 else 0)"

definition state_invariant :: "Monitor \<Rightarrow> bool" where
  "state_invariant m = ((notificationID m \<noteq> 0) = (currentLevel m \<noteq> ''normal''))"

text \<open>One half of the invariant: a monitor at level normal holds no notification.\<close>

definition normal_unnotified :: "Monitor \<Rightarrow> bool" where
  "normal_unnotified m = (currentLevel m \<noteq> ''normal'' \<or> notificationID m = 0)"

section \<open>Concrete inputs\<close>

text \<open>
  The configuration of the specification's scenarios (low at 20, critical at 10), one with
  the two thresholds inverted, and ticks of a discharging and of a charging battery.
\<close>

definition example_config :: Config where
  "example_config = \<lparr>AppName = ''Battery Monitor'', PollInterval = 5,
     LowBattery = \<lparr>Threshold = 20, Title = ''Battery low'', Icon = ''battery-low'',
       Sound = [], Message = ''%d%% remaining''\<rparr>,
     CriticalBattery = \<lparr>Threshold = 10, Title = ''Battery critical'', Icon = ''battery-empty'',
       Sound = ''~/alarm.wav'', Message = ''%d%% remaining, plug in now''\<rparr>\<rparr>"

definition inverted_config :: Config where
  "inverted_config = example_config
     \<lparr>LowBattery := (LowBattery example_config)\<lparr>Threshold := 10\<rparr>,
      CriticalBattery := (CriticalBattery example_config)\<lparr>Threshold := 20\<rparr>\<rparr>"

definition discharging :: "int \<Rightarrow> (error + uint32) \<Rightarrow> tick" where
  "discharging capacity answer =
     \<lparr>IsCharging = Inr False, Capacity = Inr capacity, Send = answer, Close = None\<rparr>"

definition plugged_in :: tick where
  "plugged_in = \<lparr>IsCharging = Inr True, Capacity = Inr 5, Send = Inr 3, Close = None\<rparr>"

definition unreadable_status :: tick where
  "unreadable_status = \<lparr>IsCharging = Inl (Error ''open status: no such file''),
     Capacity = Inr 5, Send = Inr 3, Close = None\<rparr>"

definition unreadable_capacity :: tick where
  "unreadable_capacity = \<lparr>IsCharging = Inr False,
     Capacity = Inl (Error ''open capacity: no such file''), Send = Inr 3, Close = None\<rparr>"

text \<open>A session bus that accepts every call and numbers every notification 1.\<close>

definition example_reply :: "method_call list \<Rightarrow> method_call \<Rightarrow> Call" where
  "example_reply history c = \<lparr>Err = None, Store = Inr 1\<rparr>"

definition example_notifier :: DBusNotifier where
  "example_notifier = \<lparr>obj = \<lparr>performed = [], reply = example_reply\<rparr>,
     appName = ''Battery Monitor''\<rparr>"

text \<open>
  Two configuration files as the decoder leaves them in the zero struct: an empty
  document, which sets no field, and one whose only key is \<^verbatim>\<open>poll_interval: -3\<close>.
\<close>

definition example_ReadFile :: "string \<Rightarrow> error + string" where
  "example_ReadFile path =
     (if path = ''negative.yaml'' then Inr ''poll_interval: -3'' else Inr [])"

definition example_Unmarshal :: "string \<Rightarrow> Config \<Rightarrow> error + Config" where
  "example_Unmarshal data c =
     (if data = ''poll_interval: -3'' then Inr (c\<lparr>PollInterval := - 3\<rparr>) else Inr c)"

section \<open>What one check does to the monitor and to the notifier\<close>

lemma check_error:
  "fst (check t m) =
     (case IsCharging t of
        Inl err \<Rightarrow> Some (Errorf ''read charging status: %w'' err)
      | Inr charging \<Rightarrow>
         if charging then None
         else
           (case Capacity t of
              Inl err \<Rightarrow> Some (Errorf ''read capacity: %w'' err)
            | Inr capacity \<Rightarrow> None))"
proof (cases "IsCharging t")
  case (Inl err)
  then show ?thesis by (simp add: check_def)
next
  case charging: (Inr charging)
  show ?thesis
  proof (cases charging)
    case True
    with charging show ?thesis by (simp add: check_def)
  next
    case False
    show ?thesis
    proof (cases "Capacity t")
      case (Inl err)
      with charging False show ?thesis by (simp add: check_def)
    next
      case capacity: (Inr capacity)
      obtain newLevel level where lv: "determine_level (config m) capacity = (newLevel, level)"
        by (cases "determine_level (config m) capacity")
      show ?thesis
      proof (cases "Send t")
        case (Inl err)
        with charging False capacity lv show ?thesis by (simp add: check_def Let_def)
      next
        case (Inr new_id)
        with charging False capacity lv show ?thesis by (simp add: check_def Let_def)
      qed
    qed
  qed
qed

lemma check_monitor:
  "fst (snd (check t m)) =
     (case IsCharging t of
        Inl err \<Rightarrow> m
      | Inr charging \<Rightarrow>
         if charging then
           (if currentLevel m \<noteq> ''normal''
            then m\<lparr>notificationID := 0, currentLevel := ''normal''\<rparr> else m)
         else
           (case Capacity t of
              Inl err \<Rightarrow> m
            | Inr capacity \<Rightarrow>
               (let newLevel = fst (determine_level (config m) capacity) in
                if newLevel \<noteq> currentLevel m \<and> newLevel \<noteq> ''normal'' then
                  (case Send t of
                     Inl err \<Rightarrow> m\<lparr>currentLevel := newLevel\<rparr>
                   | Inr new_id \<Rightarrow> m\<lparr>notificationID := new_id, currentLevel := newLevel\<rparr>)
                else if newLevel = ''normal'' \<and> currentLevel m \<noteq> ''normal'' then
                  m\<lparr>notificationID := 0, currentLevel := ''normal''\<rparr>
                else m)))"
proof (cases "IsCharging t")
  case (Inl err)
  then show ?thesis by (simp add: check_def)
next
  case charging: (Inr charging)
  show ?thesis
  proof (cases charging)
    case True
    with charging show ?thesis by (simp add: check_def)
  next
    case False
    show ?thesis
    proof (cases "Capacity t")
      case (Inl err)
      with charging False show ?thesis by (simp add: check_def)
    next
      case capacity: (Inr capacity)
      obtain newLevel level where lv: "determine_level (config m) capacity = (newLevel, level)"
        by (cases "determine_level (config m) capacity")
      show ?thesis
      proof (cases "Send t")
        case (Inl err)
        with charging False capacity lv show ?thesis by (simp add: check_def Let_def)
      next
        case (Inr new_id)
        with charging False capacity lv show ?thesis by (simp add: check_def Let_def)
      qed
    qed
  qed
qed

lemma notifier_calls_append:
  "notifier_calls (xs @ ys) = notifier_calls xs @ notifier_calls ys"
  by (simp add: notifier_calls_def)

lemma check_notifier_calls:
  "notifier_calls (snd (snd (check t m))) =
     (case IsCharging t of
        Inl err \<Rightarrow> []
      | Inr charging \<Rightarrow>
         if charging then
           (if currentLevel m \<noteq> ''normal'' then [Notifier_Close (notificationID m)] else [])
         else
           (case Capacity t of
              Inl err \<Rightarrow> []
            | Inr capacity \<Rightarrow>
               (let newLevel = fst (determine_level (config m) capacity);
                    level = snd (determine_level (config m) capacity) in
                if newLevel \<noteq> currentLevel m \<and> newLevel \<noteq> ''normal'' then
                  Notifier_Send (Title level) (Sprintf (Message level) [ArgInt capacity])
                     ''critical'' (Icon level) #
                  (case Send t of
                     Inl err \<Rightarrow> []
                   | Inr new_id \<Rightarrow>
                       if notificationID m \<noteq> 0 \<and> notificationID m \<noteq> new_id
                       then [Notifier_Close (notificationID m)] else [])
                else if newLevel = ''normal'' \<and> currentLevel m \<noteq> ''normal'' then
                  [Notifier_Close (notificationID m)]
                else [])))"
proof (cases "IsCharging t")
  case (Inl err)
  then show ?thesis by (simp add: check_def notifier_calls_def)
next
  case charging: (Inr charging)
  have quiet: "notifier_calls (log_close_failure (Close t)) = []"
    by (cases "Close t") (simp_all add: log_close_failure_def notifier_calls_def)
  show ?thesis
  proof (cases charging)
    case True
    with charging quiet show ?thesis
      by (simp add: check_def notifier_calls_append) (simp add: notifier_calls_def)
  next
    case False
    show ?thesis
    proof (cases "Capacity t")
      case (Inl err)
      with charging False show ?thesis by (simp add: check_def notifier_calls_def)
    next
      case capacity: (Inr capacity)
      obtain newLevel level where lv: "determine_level (config m) capacity = (newLevel, level)"
        by (cases "determine_level (config m) capacity")
      show ?thesis
      proof (cases "Send t")
        case (Inl err)
        with charging False capacity lv quiet show ?thesis
          by (simp add: check_def Let_def notifier_calls_append)
            (simp add: notifier_calls_def)
      next
        case (Inr new_id)
        with charging False capacity lv quiet show ?thesis
          by (simp add: check_def Let_def notifier_calls_append)
            (simp add: notifier_calls_def)
      qed
    qed
  qed
qed

lemma sends_of_notifier_calls: "sends cs = filter is_Send (notifier_calls cs)"
  by (induction cs) (simp_all add: sends_def notifier_calls_def)

lemma closes_of_notifier_calls: "closes cs = filter is_Close (notifier_calls cs)"
  by (induction cs) (simp_all add: closes_def notifier_calls_def)

lemma checks_Cons_monitor: "fst (checks (t # ts) m) = fst (checks ts (fst (snd (check t m))))"
  by (simp split: prod.splits)

lemma checks_Cons_notifier_calls:
  "notifier_calls (snd (checks (t # ts) m)) =
     notifier_calls (snd (snd (check t m))) @
     notifier_calls (snd (checks ts (fst (snd (check t m)))))"
  by (simp add: notifier_calls_def split: prod.splits option.splits)

lemma determine_level_low:
  "fst (determine_level cfg c) = ''low'' \<Longrightarrow> determine_level cfg c = (''low'', LowBattery cfg)"
  by (simp add: determine_level_def split: if_splits)

lemma determine_level_critical:
  "fst (determine_level cfg c) = ''critical'' \<Longrightarrow>
   determine_level cfg c = (''critical'', CriticalBattery cfg)"
  by (simp add: determine_level_def split: if_splits)

text \<open>
  Four successive checks from the initial monitor, on a discharging battery whose
  capacity classifies as normal, low, low, critical: what reaches the notifier, in order.
\<close>

lemma normal_low_low_critical:
  assumes t: "IsCharging t1 = Inr False" "IsCharging t2 = Inr False"
      "IsCharging t3 = Inr False" "IsCharging t4 = Inr False"
    and c: "Capacity t1 = Inr c1" "Capacity t2 = Inr c2" "Capacity t3 = Inr c3"
      "Capacity t4 = Inr c4"
    and l1: "fst (determine_level cfg c1) = ''normal''"
    and l2: "fst (determine_level cfg c2) = ''low''"
    and l3: "fst (determine_level cfg c3) = ''low''"
    and l4: "fst (determine_level cfg c4) = ''critical''"
  shows "notifier_calls (snd (checks [t1, t2, t3, t4] (main_monitor cfg))) =
     [Notifier_Send (Title (LowBattery cfg)) (Sprintf (Message (LowBattery cfg)) [ArgInt c2])
        ''critical'' (Icon (LowBattery cfg)),
      Notifier_Send (Title (CriticalBattery cfg))
        (Sprintf (Message (CriticalBattery cfg)) [ArgInt c4])
        ''critical'' (Icon (CriticalBattery cfg))] @
     (case (Send t2, Send t4) of
        (Inr low_id, Inr critical_id) \<Rightarrow>
          if low_id \<noteq> 0 \<and> low_id \<noteq> critical_id then [Notifier_Close low_id] else []
      | _ \<Rightarrow> [])"
proof -
  let ?m0 = "main_monitor cfg"
  have m0: "config ?m0 = cfg" "currentLevel ?m0 = ''normal''" "notificationID ?m0 = 0"
    by (simp_all add: main_monitor_def)
  have m1: "fst (snd (check t1 ?m0)) = ?m0"
    using t c l1 by (simp add: check_monitor m0)
  have n1: "notifier_calls (snd (snd (check t1 ?m0))) = []"
    using t c l1 by (simp add: check_notifier_calls m0)
  let ?m2 = "fst (snd (check t2 ?m0))"
  have m2: "?m2 = (case Send t2 of Inl err \<Rightarrow> ?m0\<lparr>currentLevel := ''low''\<rparr>
                    | Inr i \<Rightarrow> ?m0\<lparr>notificationID := i, currentLevel := ''low''\<rparr>)"
    using t c l2 by (simp add: check_monitor m0 Let_def)
  have cfg2: "config ?m2 = cfg" and lv2: "currentLevel ?m2 = ''low''"
    and id2: "notificationID ?m2 = (case Send t2 of Inl err \<Rightarrow> 0 | Inr i \<Rightarrow> i)"
    by (simp_all add: m2 m0 split: sum.splits)
  have n2: "notifier_calls (snd (snd (check t2 ?m0))) =
      [Notifier_Send (Title (LowBattery cfg)) (Sprintf (Message (LowBattery cfg)) [ArgInt c2])
        ''critical'' (Icon (LowBattery cfg))]"
    using t c l2 determine_level_low [OF l2]
    by (simp add: check_notifier_calls m0 Let_def split: sum.splits)
  have m3: "fst (snd (check t3 ?m2)) = ?m2"
    using t c l3 by (simp add: check_monitor [of t3] cfg2 lv2)
  have n3: "notifier_calls (snd (snd (check t3 ?m2))) = []"
    using t c l3 by (simp add: check_notifier_calls [of t3] cfg2 lv2)
  have n4: "notifier_calls (snd (snd (check t4 ?m2))) =
      Notifier_Send (Title (CriticalBattery cfg))
        (Sprintf (Message (CriticalBattery cfg)) [ArgInt c4])
        ''critical'' (Icon (CriticalBattery cfg)) #
      (case (Send t2, Send t4) of
        (Inr low_id, Inr critical_id) \<Rightarrow>
          if low_id \<noteq> 0 \<and> low_id \<noteq> critical_id then [Notifier_Close low_id] else []
      | _ \<Rightarrow> [])"
    using t c l4 determine_level_critical [OF l4]
    by (simp add: check_notifier_calls [of t4] cfg2 lv2 id2 Let_def split: sum.splits)
  show ?thesis
    by (simp only: checks_Cons_notifier_calls checks_Cons_monitor m1 n1 m3 n3 n2 n4
        checks.simps(1))
      (simp add: notifier_calls_def)
qed

text \<open>Every check keeps the configuration, and keeps a monitor at level normal at identifier 0.\<close>

lemma check_config: "config (fst (snd (check t m))) = config m"
  by (simp add: check_monitor Let_def split: sum.splits)

lemma check_keeps_normal_unnotified:
  "normal_unnotified m \<Longrightarrow> normal_unnotified (fst (snd (check t m)))"
  by (simp add: normal_unnotified_def check_monitor Let_def split: sum.splits)

lemma checks_keep_normal_unnotified:
  "normal_unnotified m \<Longrightarrow> normal_unnotified (fst (checks ts m))"
proof (induction ts arbitrary: m)
  case Nil
  then show ?case by simp
next
  case (Cons t ts)
  from Cons.prems have "normal_unnotified (fst (snd (check t m)))"
    by (rule check_keeps_normal_unnotified)
  then have "normal_unnotified (fst (checks ts (fst (snd (check t m)))))"
    by (rule Cons.IH)
  then show ?case by (simp only: checks_Cons_monitor)
qed

lemma main_monitor_normal_unnotified: "normal_unnotified (main_monitor cfg)"
  by (simp add: normal_unnotified_def main_monitor_def)

text \<open>
  A charging battery, for a monitor that holds no notification when it is at level
  normal.
\<close>

lemma charging_of_normal_unnotified:
  assumes "IsCharging t = Inr True" and "normal_unnotified m"
  shows "fst (check t m) = None \<and>
     currentLevel (fst (snd (check t m))) = ''normal'' \<and>
     notificationID (fst (snd (check t m))) = 0 \<and>
     sends (snd (snd (check t m))) = [] \<and>
     Battery_Capacity \<notin> set (snd (snd (check t m))) \<and>
     check (t\<lparr>Capacity := r\<rparr>) m = check t m \<and>
     notifier_calls (snd (snd (check t m))) =
       (if currentLevel m = ''normal'' then [] else [Notifier_Close (notificationID m)]) \<and>
     (notificationID m \<noteq> 0 \<longrightarrow> Notifier_Close (notificationID m) \<in> set (snd (snd (check t m)))) \<and>
     (currentLevel m = ''normal'' \<longrightarrow> check t m = (None, m, [Battery_IsCharging]))"
proof (cases "currentLevel m = ''normal''")
  case True
  with assms(2) have "notificationID m = 0"
    by (simp add: normal_unnotified_def)
  with True assms(1) show ?thesis
    by (simp add: check_def sends_def notifier_calls_def)
next
  case False
  have quiet: "log_close_failure (Close t) = [] \<or>
      (\<exists>err. log_close_failure (Close t) =
         [log_Printf ''Failed to close notification: %v'' [ArgErr err]])"
    by (cases "Close t") (simp_all add: log_close_failure_def)
  have unfolded: "check t m =
      (None, m\<lparr>notificationID := 0, currentLevel := ''normal''\<rparr>,
       [Battery_IsCharging, log_Println ''Power connected, clearing notifications'',
        Notifier_Close (notificationID m)] @ log_close_failure (Close t))"
    using False assms(1) by (simp add: check_def)
  have same: "check (t\<lparr>Capacity := r\<rparr>) m = check t m"
    using assms(1) by (simp add: check_def)
  from quiet show ?thesis
    unfolding same unfolded using False
    by (auto simp add: sends_def notifier_calls_def)
qed

text \<open>
  \<^verbatim>\<open>run\<close> and the successive checks: with a ticker duration that is not positive
  \<^verbatim>\<open>run\<close> panics after the startup check; with a positive one it makes every check.
\<close>

lemma run_panics:
  assumes "ticker_duration (PollInterval (config m)) \<le> 0"
  shows "fst (run (t # ts) m) = Panic ''non-positive interval for NewTicker'' \<and>
     fst (snd (run (t # ts) m)) = fst (snd (check t m))"
proof -
  obtain failure m' calls where c: "check t m = (failure, m', calls)"
    by (cases "check t m")
  then have "m' = fst (snd (check t m))"
    by simp
  then have "config m' = config m"
    by (simp add: check_config)
  with assms c show ?thesis
    by (simp add: run_def)
qed

lemma run_polls:
  assumes "0 < ticker_duration (PollInterval (config m))"
  shows "fst (run (t # ts) m) = Polling \<and>
     fst (snd (run (t # ts) m)) = fst (checks (t # ts) m) \<and>
     notifier_calls (snd (snd (run (t # ts) m))) = notifier_calls (snd (checks (t # ts) m))"
proof -
  obtain failure m' calls where c: "check t m = (failure, m', calls)"
    by (cases "check t m")
  then have "m' = fst (snd (check t m))"
    by simp
  then have "config m' = config m"
    by (simp add: check_config)
  moreover obtain m'' polled where p: "checks ts m' = (m'', polled)"
    by (cases "checks ts m'")
  ultimately show ?thesis
    using assms c
    by (cases failure) (simp_all add: run_def notifier_calls_def)
qed

lemma ticker_duration_seconds:
  assumes "1 \<le> p" and "p \<le> 9223372036"
  shows "ticker_duration p = p * 1000000000"
proof -
  have "- (2 ^ 63) \<le> p * 1000000000" and "p * 1000000000 < 2 ^ 63"
    using assms by simp_all
  then have "signed_take_bit 63 (p * 1000000000) = p * 1000000000"
    by (rule signed_take_bit_int_eq_self)
  moreover have "LENGTH(64) - 1 = (63 :: nat)"
    by simp
  ultimately show ?thesis
    by (simp only: ticker_duration_def sint_sbintrunc')
qed

section \<open>The claims\<close>

subsection \<open>A failed send\<close>

text \<open>
  C1, as the code has it. When a check of a discharging battery finds a level \<open>newLevel\<close>
  that differs from \<open>currentLevel\<close> and is not normal, and \<^verbatim>\<open>Send\<close> fails, the check
  returns no error, logs the failure, still calls \<^verbatim>\<open>playSound\<close> and leaves
  \<open>notificationID\<close> as it was, but it sets \<open>currentLevel\<close> to \<open>newLevel\<close> (line 277 is
  outside the \<^verbatim>\<open>else\<close>). So the next check that classifies the same level calls neither
  \<^verbatim>\<open>Send\<close> nor \<^verbatim>\<open>Close\<close>: the failed send is not retried.
\<close>

theorem send_failure_advances_level:
  assumes "IsCharging t = Inr False" and "Capacity t = Inr capacity"
    and "determine_level (config m) capacity = (newLevel, level)"
    and "newLevel \<noteq> currentLevel m" and "newLevel \<noteq> ''normal''"
    and "Send t = Inl err"
    and "IsCharging t' = Inr False" and "Capacity t' = Inr capacity'"
    and "fst (determine_level (config m) capacity') = newLevel"
  shows "check t m =
      (None, m\<lparr>currentLevel := newLevel\<rparr>,
       [Battery_IsCharging, Battery_Capacity,
        log_Printf ''Battery: %d%% (discharging)'' [ArgInt capacity],
        log_Printf ''Battery level changed to: %s (%d%%)'' [ArgStr newLevel, ArgInt capacity],
        Notifier_Send (Title level) (Sprintf (Message level) [ArgInt capacity])
          ''critical'' (Icon level),
        log_Printf ''Failed to send notification: %v'' [ArgErr err],
        playSound (Sound level)]) \<and>
     notificationID (fst (snd (check t m))) = notificationID m \<and>
     check t' (m\<lparr>currentLevel := newLevel\<rparr>) =
      (None, m\<lparr>currentLevel := newLevel\<rparr>,
       [Battery_IsCharging, Battery_Capacity,
        log_Printf ''Battery: %d%% (discharging)'' [ArgInt capacity']])"
proof -
  have first: "check t m =
      (None, m\<lparr>currentLevel := newLevel\<rparr>,
       [Battery_IsCharging, Battery_Capacity,
        log_Printf ''Battery: %d%% (discharging)'' [ArgInt capacity],
        log_Printf ''Battery level changed to: %s (%d%%)'' [ArgStr newLevel, ArgInt capacity],
        Notifier_Send (Title level) (Sprintf (Message level) [ArgInt capacity])
          ''critical'' (Icon level),
        log_Printf ''Failed to send notification: %v'' [ArgErr err],
        playSound (Sound level)])"
    using assms(1-6) by (simp add: check_def Let_def)
  have second: "check t' (m\<lparr>currentLevel := newLevel\<rparr>) =
      (None, m\<lparr>currentLevel := newLevel\<rparr>,
       [Battery_IsCharging, Battery_Capacity,
        log_Printf ''Battery: %d%% (discharging)'' [ArgInt capacity']])"
    using assms(7-9) by (auto simp add: check_def Let_def split: prod.splits)
  from first second show ?thesis by simp
qed

theorem send_failure_advances_level_witness:
  "check (discharging 18 (Inl (Error ''no reply''))) (main_monitor example_config) =
      (None, (main_monitor example_config)\<lparr>currentLevel := ''low''\<rparr>,
       [Battery_IsCharging, Battery_Capacity,
        log_Printf ''Battery: %d%% (discharging)'' [ArgInt 18],
        log_Printf ''Battery level changed to: %s (%d%%)'' [ArgStr ''low'', ArgInt 18],
        Notifier_Send ''Battery low'' (Sprintf ''%d%% remaining'' [ArgInt 18])
          ''critical'' ''battery-low'',
        log_Printf ''Failed to send notification: %v'' [ArgErr (Error ''no reply'')],
        playSound []]) \<and>
   notificationID
     (fst (snd (check (discharging 18 (Inl (Error ''no reply''))) (main_monitor example_config))))
     = 0 \<and>
   check (discharging 17 (Inr 1)) ((main_monitor example_config)\<lparr>currentLevel := ''low''\<rparr>) =
      (None, (main_monitor example_config)\<lparr>currentLevel := ''low''\<rparr>,
       [Battery_IsCharging, Battery_Capacity,
        log_Printf ''Battery: %d%% (discharging)'' [ArgInt 17]])"
  using send_failure_advances_level
    [where t = "discharging 18 (Inl (Error ''no reply''))" and capacity = 18
       and m = "main_monitor example_config" and newLevel = "''low''"
       and level = "LowBattery example_config" and err = "Error ''no reply''"
       and t' = "discharging 17 (Inr 1)" and capacity' = 17]
  by (simp add: discharging_def main_monitor_def example_config_def determine_level_def)

text \<open>
  The claim as the specification states it fails from the initial state: thresholds 20 and
  10, capacity 18, a notifier whose \<^verbatim>\<open>Send\<close> fails. The level read is low, the monitor
  was at normal, and after the check it is at low; a second check at the same capacity,
  with a notifier that now works, sends nothing.
\<close>

theorem send_failure_not_retried_counterexample:
  "fst (determine_level example_config 18) = ''low'' \<and>
   currentLevel (main_monitor example_config) = ''normal'' \<and>
   currentLevel
     (fst (snd (check (discharging 18 (Inl (Error ''no reply''))) (main_monitor example_config))))
     = ''low'' \<and>
   sends (snd (snd (check (discharging 18 (Inr 1))
     (fst (snd (check (discharging 18 (Inl (Error ''no reply'')))
        (main_monitor example_config))))))) = []"
  by (simp add: check_def Let_def sends_def discharging_def main_monitor_def example_config_def
      determine_level_def)

subsection \<open>The invariant of the monitor state\<close>

text \<open>
  C2, as the code has it. The invariant (the identifier is nonzero iff the level is not
  normal) holds of the monitor \<^verbatim>\<open>main\<close> builds. Every check, whatever the collaborators
  answer, preserves its half \<open>normal_unnotified\<close>: at level normal the identifier is 0.
  The whole invariant is preserved by every check that makes no \<^verbatim>\<open>Send\<close>, or whose
  \<^verbatim>\<open>Send\<close> succeeds with a nonzero identifier.
\<close>

theorem invariant_preserved_unless_send_fails:
  "state_invariant (main_monitor cfg) \<and>
   (normal_unnotified m \<longrightarrow> normal_unnotified (fst (snd (check t m)))) \<and>
   (state_invariant m \<and>
      (sends (snd (snd (check t m))) = [] \<or> (\<exists>i. Send t = Inr i \<and> i \<noteq> 0)) \<longrightarrow>
    state_invariant (fst (snd (check t m))))"
proof (intro conjI impI)
  show "state_invariant (main_monitor cfg)"
    by (simp add: state_invariant_def main_monitor_def)
next
  assume "normal_unnotified m"
  then show "normal_unnotified (fst (snd (check t m)))"
    by (simp add: normal_unnotified_def check_monitor Let_def split: sum.splits)
next
  assume "state_invariant m \<and>
      (sends (snd (snd (check t m))) = [] \<or> (\<exists>i. Send t = Inr i \<and> i \<noteq> 0))"
  then show "state_invariant (fst (snd (check t m)))"
    by (auto simp add: state_invariant_def check_monitor sends_of_notifier_calls
        check_notifier_calls Let_def split: sum.splits)
qed

theorem invariant_preserved_unless_send_fails_witness:
  "state_invariant (main_monitor example_config) \<and>
   normal_unnotified (fst (snd (check (discharging 18 (Inr 1)) (main_monitor example_config)))) \<and>
   state_invariant (fst (snd (check (discharging 18 (Inr 1)) (main_monitor example_config))))"
proof -
  have a: "normal_unnotified (main_monitor example_config)"
    by (simp add: normal_unnotified_def main_monitor_def)
  have b: "\<exists>i. Send (discharging 18 (Inr 1)) = Inr i \<and> i \<noteq> 0"
    by (simp add: discharging_def)
  show ?thesis
    using a b invariant_preserved_unless_send_fails
      [where cfg = example_config and m = "main_monitor example_config"
         and t = "discharging 18 (Inr 1)"]
    by blast
qed

text \<open>
  The claim as the specification states it fails at the first alert whose \<^verbatim>\<open>Send\<close>
  fails: the initial monitor satisfies the invariant, and after the check it is at level
  low with identifier 0.
\<close>

theorem invariant_broken_counterexample:
  "state_invariant (main_monitor example_config) \<and>
   \<not> state_invariant
     (fst (snd (check (discharging 18 (Inl (Error ''no reply''))) (main_monitor example_config))))"
  by (simp add: state_invariant_def check_def Let_def discharging_def main_monitor_def
      example_config_def determine_level_def)

subsection \<open>Classification\<close>

text \<open>
  C3. The level of a check is the specification's \<open>spec_classify\<close>: for a discharging
  battery the \<^verbatim>\<open>newLevel\<close> of lines 247-255 equals it; after every check whose reads
  succeed, \<open>currentLevel\<close> equals it, and a charging battery gives normal whatever the
  capacity is; and since the critical test comes first, a capacity above the low
  threshold and at most the critical one (inverted thresholds) is critical.
\<close>

theorem check_level_is_spec_classify:
  "fst (determine_level (config m) capacity) =
      spec_classify capacity False (LowBattery (config m)) (CriticalBattery (config m)) \<and>
   (IsCharging t = Inr charging \<and> (charging \<or> Capacity t = Inr capacity) \<longrightarrow>
      currentLevel (fst (snd (check t m))) =
        spec_classify capacity charging (LowBattery (config m)) (CriticalBattery (config m))) \<and>
   (Threshold (LowBattery (config m)) < capacity \<and>
    capacity \<le> Threshold (CriticalBattery (config m)) \<longrightarrow>
      fst (determine_level (config m) capacity) = ''critical'')"
proof (intro conjI impI)
  show eq: "fst (determine_level (config m) capacity) =
      spec_classify capacity False (LowBattery (config m)) (CriticalBattery (config m))"
    by (simp add: determine_level_def spec_classify_def)
  show "fst (determine_level (config m) capacity) = ''critical''"
    if "Threshold (LowBattery (config m)) < capacity \<and>
        capacity \<le> Threshold (CriticalBattery (config m))"
    using that by (simp add: determine_level_def)
  show "currentLevel (fst (snd (check t m))) =
        spec_classify capacity charging (LowBattery (config m)) (CriticalBattery (config m))"
    if h: "IsCharging t = Inr charging \<and> (charging \<or> Capacity t = Inr capacity)"
  proof (cases charging)
    case True
    with h show ?thesis by (simp add: check_monitor spec_classify_def)
  next
    case False
    with h have c: "Capacity t = Inr capacity" and i: "IsCharging t = Inr False"
      by simp_all
    show ?thesis
      using False by (simp add: check_monitor c i Let_def eq [symmetric] split: sum.splits)
  qed
qed

theorem check_level_is_spec_classify_witness:
  "fst (determine_level inverted_config 15) = ''critical'' \<and>
   spec_classify 15 False (LowBattery inverted_config) (CriticalBattery inverted_config)
     = ''critical'' \<and>
   currentLevel (fst (snd (check (discharging 15 (Inr 1)) (main_monitor inverted_config))))
     = ''critical''"
proof -
  have c: "config (main_monitor inverted_config) = inverted_config"
    by (simp add: main_monitor_def)
  have h: "IsCharging (discharging 15 (Inr 1)) = Inr False \<and>
      (False \<or> Capacity (discharging 15 (Inr 1)) = Inr 15)"
    by (simp add: discharging_def)
  have b: "Threshold (LowBattery inverted_config) < 15 \<and>
      15 \<le> Threshold (CriticalBattery inverted_config)"
    by (simp add: inverted_config_def example_config_def)
  show ?thesis
    using h b check_level_is_spec_classify
      [where m = "main_monitor inverted_config" and capacity = 15
         and t = "discharging 15 (Inr 1)" and charging = False]
    unfolding c by auto
qed

text \<open>
  C6. With the configuration fixed and the battery discharging, the level read at a
  capacity is at least as severe as the level read at any higher capacity.
\<close>

theorem classification_monotone:
  "c2 \<le> c1 \<Longrightarrow>
   severity (fst (determine_level cfg c1)) \<le> severity (fst (determine_level cfg c2))"
  by (simp add: determine_level_def severity_def)

theorem classification_monotone_witness:
  "severity (fst (determine_level example_config 18)) \<le>
     severity (fst (determine_level example_config 9)) \<and>
   severity (fst (determine_level example_config 18)) = 1 \<and>
   severity (fst (determine_level example_config 9)) = 2"
proof -
  have "(9::int) \<le> 18" by simp
  from classification_monotone [OF this, of example_config]
  show ?thesis by (simp add: determine_level_def severity_def example_config_def)
qed

subsection \<open>A charging battery\<close>

text \<open>
  C4. Let the prior monitor be any state of the program: the monitor \<^verbatim>\<open>main\<close> builds,
  after any number of checks, whatever the collaborators answered in them. If the battery
  then reports that it is charging, the check returns no error and ends at level normal
  with identifier 0; it makes no \<^verbatim>\<open>Send\<close>; it does not read the capacity, and its outcome
  is the same whatever the capacity read would have answered; if the prior level was not
  normal it calls \<^verbatim>\<open>Close\<close> once, on the prior identifier, so an active notification is
  closed; and if the prior level was normal it calls the notifier not at all and changes
  nothing.
\<close>

theorem charging_override:
  assumes "m = fst (checks ts (main_monitor cfg))" and "IsCharging t = Inr True"
  shows "fst (check t m) = None \<and>
     currentLevel (fst (snd (check t m))) = ''normal'' \<and>
     notificationID (fst (snd (check t m))) = 0 \<and>
     sends (snd (snd (check t m))) = [] \<and>
     Battery_Capacity \<notin> set (snd (snd (check t m))) \<and>
     check (t\<lparr>Capacity := r\<rparr>) m = check t m \<and>
     notifier_calls (snd (snd (check t m))) =
       (if currentLevel m = ''normal'' then [] else [Notifier_Close (notificationID m)]) \<and>
     (notificationID m \<noteq> 0 \<longrightarrow> Notifier_Close (notificationID m) \<in> set (snd (snd (check t m)))) \<and>
     (currentLevel m = ''normal'' \<longrightarrow> check t m = (None, m, [Battery_IsCharging]))"
  using assms(2) checks_keep_normal_unnotified [OF main_monitor_normal_unnotified, of ts cfg]
  unfolding assms(1) [symmetric]
  by (rule charging_of_normal_unnotified)

theorem charging_override_witness:
  "check plugged_in ((main_monitor example_config)\<lparr>notificationID := 1, currentLevel := ''low''\<rparr>)
     = (None, main_monitor example_config,
        [Battery_IsCharging, log_Println ''Power connected, clearing notifications'',
         Notifier_Close 1]) \<and>
   sends (snd (snd (check plugged_in
     ((main_monitor example_config)\<lparr>notificationID := 1, currentLevel := ''low''\<rparr>)))) = [] \<and>
   notifier_calls (snd (snd (check plugged_in
     ((main_monitor example_config)\<lparr>notificationID := 1, currentLevel := ''low''\<rparr>))))
     = [Notifier_Close 1] \<and>
   check (plugged_in\<lparr>Capacity := Inr 90\<rparr>)
     ((main_monitor example_config)\<lparr>notificationID := 1, currentLevel := ''low''\<rparr>)
     = check plugged_in
         ((main_monitor example_config)\<lparr>notificationID := 1, currentLevel := ''low''\<rparr>)"
proof -
  let ?m = "(main_monitor example_config)\<lparr>notificationID := 1, currentLevel := ''low''\<rparr>"
  have c: "IsCharging plugged_in = Inr True"
    by (simp add: plugged_in_def)
  have u: "?m = fst (checks [discharging 18 (Inr 1)] (main_monitor example_config))"
    by (simp only: checks_Cons_monitor checks.simps(1) fst_conv)
      (simp add: check_monitor discharging_def main_monitor_def example_config_def
        determine_level_def Let_def)
  have l: "currentLevel ?m \<noteq> ''normal''" "notificationID ?m = 1"
    by simp_all
  have whole: "check plugged_in ?m =
      (None, main_monitor example_config,
       [Battery_IsCharging, log_Println ''Power connected, clearing notifications'',
        Notifier_Close 1])"
    by (simp add: check_def plugged_in_def main_monitor_def log_close_failure_def)
  from charging_override [OF u c, where r = "Inr 90"] l whole
  show ?thesis by simp
qed

subsection \<open>Edge-triggered transitions\<close>

text \<open>
  C5. A check that reads the level the monitor is already at (a discharging battery whose
  capacity classifies as \<open>currentLevel\<close>, or a charging battery with the monitor at
  normal) returns no error, calls neither \<^verbatim>\<open>Send\<close> nor \<^verbatim>\<open>Close\<close> and leaves the monitor
  as it was. And four successive checks from the initial monitor (\<open>checks\<close>: the
  transition function applied tick after tick), on a discharging battery whose capacity
  classifies as normal, low, low, critical, make exactly two sends, the low one and then
  the critical one; the notifier sees after them one \<^verbatim>\<open>Close\<close>, of the low notification,
  when both sends succeeded and its identifier is nonzero and differs from the critical
  one's, and no \<^verbatim>\<open>Close\<close> otherwise.
\<close>

theorem edge_triggered:
  "(IsCharging t = Inr False \<and> Capacity t = Inr capacity \<and>
    fst (determine_level (config m) capacity) = currentLevel m \<longrightarrow>
      fst (check t m) = None \<and> fst (snd (check t m)) = m \<and>
      notifier_calls (snd (snd (check t m))) = []) \<and>
   (IsCharging t' = Inr True \<and> currentLevel m' = ''normal'' \<longrightarrow>
      fst (check t' m') = None \<and> fst (snd (check t' m')) = m' \<and>
      notifier_calls (snd (snd (check t' m'))) = []) \<and>
   (IsCharging t1 = Inr False \<and> IsCharging t2 = Inr False \<and>
    IsCharging t3 = Inr False \<and> IsCharging t4 = Inr False \<and>
    Capacity t1 = Inr c1 \<and> Capacity t2 = Inr c2 \<and> Capacity t3 = Inr c3 \<and>
    Capacity t4 = Inr c4 \<and>
    fst (determine_level cfg c1) = ''normal'' \<and> fst (determine_level cfg c2) = ''low'' \<and>
    fst (determine_level cfg c3) = ''low'' \<and> fst (determine_level cfg c4) = ''critical'' \<longrightarrow>
      notifier_calls (snd (checks [t1, t2, t3, t4] (main_monitor cfg))) =
        [Notifier_Send (Title (LowBattery cfg)) (Sprintf (Message (LowBattery cfg)) [ArgInt c2])
           ''critical'' (Icon (LowBattery cfg)),
         Notifier_Send (Title (CriticalBattery cfg))
           (Sprintf (Message (CriticalBattery cfg)) [ArgInt c4])
           ''critical'' (Icon (CriticalBattery cfg))] @
        closes (snd (checks [t1, t2, t3, t4] (main_monitor cfg))) \<and>
      length (sends (snd (checks [t1, t2, t3, t4] (main_monitor cfg)))) = 2 \<and>
      closes (snd (checks [t1, t2, t3, t4] (main_monitor cfg))) =
        (case (Send t2, Send t4) of
           (Inr low_id, Inr critical_id) \<Rightarrow>
             if low_id \<noteq> 0 \<and> low_id \<noteq> critical_id then [Notifier_Close low_id] else []
         | _ \<Rightarrow> []))"
proof (intro conjI impI)
  assume h: "IsCharging t = Inr False \<and> Capacity t = Inr capacity \<and>
    fst (determine_level (config m) capacity) = currentLevel m"
  then show "fst (check t m) = None"
    by (simp add: check_error)
  from h show "fst (snd (check t m)) = m"
    by (simp add: check_monitor)
  from h show "notifier_calls (snd (snd (check t m))) = []"
    by (simp add: check_notifier_calls)
next
  assume h: "IsCharging t' = Inr True \<and> currentLevel m' = ''normal''"
  then show "fst (check t' m') = None"
    by (simp add: check_error)
  from h show "fst (snd (check t' m')) = m'"
    by (simp add: check_monitor)
  from h show "notifier_calls (snd (snd (check t' m'))) = []"
    by (simp add: check_notifier_calls)
next
  assume h: "IsCharging t1 = Inr False \<and> IsCharging t2 = Inr False \<and>
    IsCharging t3 = Inr False \<and> IsCharging t4 = Inr False \<and>
    Capacity t1 = Inr c1 \<and> Capacity t2 = Inr c2 \<and> Capacity t3 = Inr c3 \<and>
    Capacity t4 = Inr c4 \<and>
    fst (determine_level cfg c1) = ''normal'' \<and> fst (determine_level cfg c2) = ''low'' \<and>
    fst (determine_level cfg c3) = ''low'' \<and> fst (determine_level cfg c4) = ''critical''"
  define calls where "calls = snd (checks [t1, t2, t3, t4] (main_monitor cfg))"
  define closed where "closed =
        (case (Send t2, Send t4) of
           (Inr low_id, Inr critical_id) \<Rightarrow>
             if low_id \<noteq> 0 \<and> low_id \<noteq> critical_id then [Notifier_Close low_id] else []
         | _ \<Rightarrow> [])"
  define sent where "sent =
        [Notifier_Send (Title (LowBattery cfg)) (Sprintf (Message (LowBattery cfg)) [ArgInt c2])
           ''critical'' (Icon (LowBattery cfg)),
         Notifier_Send (Title (CriticalBattery cfg))
           (Sprintf (Message (CriticalBattery cfg)) [ArgInt c4])
           ''critical'' (Icon (CriticalBattery cfg))]"
  have seen: "notifier_calls calls = sent @ closed"
    unfolding calls_def closed_def sent_def
    using h by (intro normal_low_low_critical [where ?c1.0 = c1 and ?c3.0 = c3]) blast+
  have only_closes: "filter is_Close closed = closed" "filter is_Send closed = []"
    by (simp_all add: closed_def split: sum.splits)
  have only_sends: "filter is_Close sent = []" "filter is_Send sent = sent" "length sent = 2"
    by (simp_all add: sent_def)
  have closed: "closes calls = closed"
    by (simp add: closes_of_notifier_calls seen only_closes only_sends)
  have two: "length (sends calls) = 2"
    by (simp add: sends_of_notifier_calls seen only_closes only_sends)
  have ordered: "notifier_calls calls = sent @ closes calls"
    by (simp add: seen closed)
  from ordered show "notifier_calls (snd (checks [t1, t2, t3, t4] (main_monitor cfg))) =
        [Notifier_Send (Title (LowBattery cfg)) (Sprintf (Message (LowBattery cfg)) [ArgInt c2])
           ''critical'' (Icon (LowBattery cfg)),
         Notifier_Send (Title (CriticalBattery cfg))
           (Sprintf (Message (CriticalBattery cfg)) [ArgInt c4])
           ''critical'' (Icon (CriticalBattery cfg))] @
        closes (snd (checks [t1, t2, t3, t4] (main_monitor cfg)))"
    unfolding calls_def sent_def .
  from two show "length (sends (snd (checks [t1, t2, t3, t4] (main_monitor cfg)))) = 2"
    unfolding calls_def .
  from closed show "closes (snd (checks [t1, t2, t3, t4] (main_monitor cfg))) =
        (case (Send t2, Send t4) of
           (Inr low_id, Inr critical_id) \<Rightarrow>
             if low_id \<noteq> 0 \<and> low_id \<noteq> critical_id then [Notifier_Close low_id] else []
         | _ \<Rightarrow> [])"
    unfolding calls_def closed_def .
qed


theorem edge_triggered_witness:
  "fst (snd (check (discharging 17 (Inr 5))
      ((main_monitor example_config)\<lparr>notificationID := 1, currentLevel := ''low''\<rparr>))) =
     (main_monitor example_config)\<lparr>notificationID := 1, currentLevel := ''low''\<rparr> \<and>
   notifier_calls (snd (snd (check (discharging 17 (Inr 5))
      ((main_monitor example_config)\<lparr>notificationID := 1, currentLevel := ''low''\<rparr>)))) = [] \<and>
   notifier_calls (snd (snd (check plugged_in (main_monitor example_config)))) = [] \<and>
   notifier_calls (snd (checks
      [discharging 25 (Inr 1), discharging 18 (Inr 1), discharging 17 (Inr 2),
       discharging 9 (Inr 3)] (main_monitor example_config))) =
     [Notifier_Send ''Battery low'' (Sprintf ''%d%% remaining'' [ArgInt 18])
        ''critical'' ''battery-low'',
      Notifier_Send ''Battery critical'' (Sprintf ''%d%% remaining, plug in now'' [ArgInt 9])
        ''critical'' ''battery-empty'',
      Notifier_Close 1] \<and>
   length (sends (snd (checks
      [discharging 25 (Inr 1), discharging 18 (Inr 1), discharging 17 (Inr 2),
       discharging 9 (Inr 3)] (main_monitor example_config)))) = 2 \<and>
   closes (snd (checks
      [discharging 25 (Inr 1), discharging 18 (Inr 1), discharging 17 (Inr 2),
       discharging 9 (Inr 3)] (main_monitor example_config))) = [Notifier_Close 1]"
proof -
  define low where
    "low = (main_monitor example_config)\<lparr>notificationID := 1, currentLevel := ''low''\<rparr>"
  define t1 where "t1 = discharging 25 (Inr 1)"
  define t2 where "t2 = discharging 18 (Inr 1)"
  define t3 where "t3 = discharging 17 (Inr 2)"
  define t4 where "t4 = discharging 9 (Inr 3)"
  define t where "t = discharging 17 (Inr 5)"
  have same: "IsCharging t = Inr False \<and> Capacity t = Inr 17 \<and>
      fst (determine_level (config low) 17) = currentLevel low"
    by (simp add: t_def low_def discharging_def main_monitor_def example_config_def
        determine_level_def)
  have plugged: "IsCharging plugged_in = Inr True \<and>
      currentLevel (main_monitor example_config) = ''normal''"
    by (simp add: plugged_in_def main_monitor_def)
  have sequence: "IsCharging t1 = Inr False \<and> IsCharging t2 = Inr False \<and>
      IsCharging t3 = Inr False \<and> IsCharging t4 = Inr False \<and>
      Capacity t1 = Inr 25 \<and> Capacity t2 = Inr 18 \<and> Capacity t3 = Inr 17 \<and>
      Capacity t4 = Inr 9 \<and>
      fst (determine_level example_config 25) = ''normal'' \<and>
      fst (determine_level example_config 18) = ''low'' \<and>
      fst (determine_level example_config 17) = ''low'' \<and>
      fst (determine_level example_config 9) = ''critical''"
    by (simp add: t1_def t2_def t3_def t4_def discharging_def example_config_def
        determine_level_def)
  have answers: "Send t2 = Inr 1" "Send t4 = Inr 3"
    by (simp_all add: t2_def t4_def discharging_def)
  have texts: "Title (LowBattery example_config) = ''Battery low''"
    "Message (LowBattery example_config) = ''%d%% remaining''"
    "Icon (LowBattery example_config) = ''battery-low''"
    "Title (CriticalBattery example_config) = ''Battery critical''"
    "Message (CriticalBattery example_config) = ''%d%% remaining, plug in now''"
    "Icon (CriticalBattery example_config) = ''battery-empty''"
    by (simp_all add: example_config_def)
  note whole = edge_triggered
      [where t = t and capacity = 17 and m = low
         and t' = plugged_in and m' = "main_monitor example_config"
         and ?t1.0 = t1 and ?t2.0 = t2 and ?t3.0 = t3 and ?t4.0 = t4
         and ?c1.0 = 25 and ?c2.0 = 18 and ?c3.0 = 17 and ?c4.0 = 9
         and cfg = example_config]
  from whole same have first: "fst (snd (check t low)) = low"
      "notifier_calls (snd (snd (check t low))) = []"
    by blast+
  from whole plugged
  have second: "notifier_calls (snd (snd (check plugged_in (main_monitor example_config)))) = []"
    by blast
  from whole sequence
  have third: "notifier_calls (snd (checks [t1, t2, t3, t4] (main_monitor example_config))) =
        [Notifier_Send (Title (LowBattery example_config))
           (Sprintf (Message (LowBattery example_config)) [ArgInt 18])
           ''critical'' (Icon (LowBattery example_config)),
         Notifier_Send (Title (CriticalBattery example_config))
           (Sprintf (Message (CriticalBattery example_config)) [ArgInt 9])
           ''critical'' (Icon (CriticalBattery example_config))] @
        closes (snd (checks [t1, t2, t3, t4] (main_monitor example_config)))"
      "length (sends (snd (checks [t1, t2, t3, t4] (main_monitor example_config)))) = 2"
      "closes (snd (checks [t1, t2, t3, t4] (main_monitor example_config))) =
        (case (Send t2, Send t4) of
           (Inr low_id, Inr critical_id) \<Rightarrow>
             if low_id \<noteq> 0 \<and> low_id \<noteq> critical_id then [Notifier_Close low_id] else []
         | _ \<Rightarrow> [])"
    by blast+
  have closed: "closes (snd (checks [t1, t2, t3, t4] (main_monitor example_config))) =
      [Notifier_Close 1]"
    unfolding third(3) answers by simp
  have seen: "notifier_calls (snd (checks [t1, t2, t3, t4] (main_monitor example_config))) =
     [Notifier_Send ''Battery low'' (Sprintf ''%d%% remaining'' [ArgInt 18])
        ''critical'' ''battery-low'',
      Notifier_Send ''Battery critical'' (Sprintf ''%d%% remaining, plug in now'' [ArgInt 9])
        ''critical'' ''battery-empty'',
      Notifier_Close 1]"
    unfolding third(1) closed texts by simp
  from first second seen third(2) closed show ?thesis
    unfolding low_def t_def t1_def t2_def t3_def t4_def by blast
qed

subsection \<open>A battery that cannot be read\<close>

text \<open>
  C10. If \<^verbatim>\<open>IsCharging\<close> fails, the check returns that error (wrapped), after the one
  call on the battery and nothing else; if the battery is discharging and \<^verbatim>\<open>Capacity\<close>
  fails, the check returns that error (wrapped), after the two calls on the battery and
  nothing else. In both the monitor is unchanged and there is no call of \<^verbatim>\<open>Send\<close>,
  \<^verbatim>\<open>Close\<close> or \<^verbatim>\<open>playSound\<close>, whatever the prior monitor.
\<close>

theorem read_error_aborts_tick:
  "(IsCharging t = Inl err \<longrightarrow>
      check t m =
        (Some (Errorf ''read charging status: %w'' err), m, [Battery_IsCharging])) \<and>
   (IsCharging t' = Inr False \<and> Capacity t' = Inl err' \<longrightarrow>
      check t' m' =
        (Some (Errorf ''read capacity: %w'' err'), m', [Battery_IsCharging, Battery_Capacity]))"
  by (simp add: check_def)

theorem read_error_aborts_tick_witness:
  "check unreadable_status
     ((main_monitor example_config)\<lparr>notificationID := 1, currentLevel := ''low''\<rparr>) =
     (Some (Errorf ''read charging status: %w'' (Error ''open status: no such file'')),
      (main_monitor example_config)\<lparr>notificationID := 1, currentLevel := ''low''\<rparr>,
      [Battery_IsCharging]) \<and>
   check unreadable_capacity
     ((main_monitor example_config)\<lparr>notificationID := 1, currentLevel := ''low''\<rparr>) =
     (Some (Errorf ''read capacity: %w'' (Error ''open capacity: no such file'')),
      (main_monitor example_config)\<lparr>notificationID := 1, currentLevel := ''low''\<rparr>,
      [Battery_IsCharging, Battery_Capacity])"
proof -
  have a: "IsCharging unreadable_status = Inl (Error ''open status: no such file'')"
    by (simp add: unreadable_status_def)
  have b: "IsCharging unreadable_capacity = Inr False \<and>
      Capacity unreadable_capacity = Inl (Error ''open capacity: no such file'')"
    by (simp add: unreadable_capacity_def)
  from a b read_error_aborts_tick
      [where t = unreadable_status and err = "Error ''open status: no such file''"
         and t' = unreadable_capacity and err' = "Error ''open capacity: no such file''"]
  show ?thesis by blast
qed

subsection \<open>Closing identifier 0\<close>

text \<open>
  C7. \<^verbatim>\<open>Close(0)\<close> returns \<^verbatim>\<open>nil\<close> and leaves the notifier, the list of performed
  transport calls included, as it was: for every notifier, whatever its transport
  would answer.
\<close>

theorem Close_zero_noop:
  "DBusNotifier_Close n 0 = (None, n) \<and>
   performed (obj (snd (DBusNotifier_Close n 0))) = performed (obj n)"
  by (simp add: DBusNotifier_Close_def)

subsection \<open>The D-Bus notifier\<close>

text \<open>
  C8. The urgency byte of \<^verbatim>\<open>Send\<close> is 2 for critical, 1 for normal and 0 for every
  other string. Whatever the urgency, \<^verbatim>\<open>Send\<close> performs exactly one transport call, a
  \<^verbatim>\<open>Notify\<close> carrying that byte in its hints, and the error it returns is the
  transport's (of the call, or of storing the reply): none comes from the urgency.
\<close>

theorem Send_urgency_total:
  "urgencyLevel ''critical'' = 2 \<and> urgencyLevel ''normal'' = 1 \<and>
   (urgency \<noteq> ''critical'' \<and> urgency \<noteq> ''normal'' \<longrightarrow> urgencyLevel urgency = 0) \<and>
   (let c = Notify (appName n) 0 icon summary body []
              [''urgency'' \<mapsto> MakeVariant_byte (urgencyLevel urgency),
               ''resident'' \<mapsto> MakeVariant_bool True,
               ''transient'' \<mapsto> MakeVariant_bool False] 0;
        r = reply (obj n) (performed (obj n)) c
    in performed (obj (snd (DBusNotifier_Send n summary body urgency icon))) =
         performed (obj n) @ [c] \<and>
       fst (DBusNotifier_Send n summary body urgency icon) =
         (case Err r of Some err \<Rightarrow> Inl err | None \<Rightarrow> Store r))"
  by (simp add: urgencyLevel_def DBusNotifier_Send_def obj_Call_def Let_def
      split: option.splits)

theorem Send_urgency_total_witness:
  "urgencyLevel ''low'' = 0 \<and>
   performed (obj (snd (DBusNotifier_Send example_notifier ''Battery low'' ''18% remaining''
      ''low'' ''battery-low''))) =
     [Notify ''Battery Monitor'' 0 ''battery-low'' ''Battery low'' ''18% remaining'' []
        [''urgency'' \<mapsto> MakeVariant_byte 0,
         ''resident'' \<mapsto> MakeVariant_bool True,
         ''transient'' \<mapsto> MakeVariant_bool False] 0] \<and>
   fst (DBusNotifier_Send example_notifier ''Battery low'' ''18% remaining''
      ''low'' ''battery-low'') = Inr 1"
proof -
  have u: "''low'' \<noteq> ''critical'' \<and> ''low'' \<noteq> ''normal''"
    by simp
  have z: "urgencyLevel ''low'' = 0"
    using u Send_urgency_total [where urgency = "''low''"] by blast
  show ?thesis
    using z Send_urgency_total
      [where urgency = "''low''" and n = example_notifier and summary = "''Battery low''"
         and body = "''18% remaining''" and icon = "''battery-low''"]
    by (simp add: Let_def example_notifier_def example_reply_def)
qed

subsection \<open>Loading the configuration\<close>

text \<open>
  C9, as the code has it. When \<^verbatim>\<open>loadConfig\<close> succeeds, the file was read and decoded,
  and the configuration returned is the decoded one with a poll interval of 0 replaced by
  5 and an empty application name replaced by "Battery Monitor": so its poll interval is
  not 0 and its application name is not empty, and a key set to 0 or to the empty string
  gives what a key the decoder left at Go's zero value gives. Every other decoded poll
  interval, a negative one too, is returned as it is.
\<close>

theorem loadConfig_defaults:
  assumes "loadConfig os_ReadFile yaml_Unmarshal path = Inr cfg"
  shows "PollInterval cfg \<noteq> 0 \<and> AppName cfg \<noteq> [] \<and>
     (\<exists>data parsed.
        os_ReadFile path = Inr data \<and> yaml_Unmarshal data zero_Config = Inr parsed \<and>
        AppName cfg = (if AppName parsed = [] then ''Battery Monitor'' else AppName parsed) \<and>
        PollInterval cfg = (if PollInterval parsed = 0 then 5 else PollInterval parsed) \<and>
        LowBattery cfg = LowBattery parsed \<and>
        CriticalBattery cfg = CriticalBattery parsed)"
proof -
  from assms obtain data where d: "os_ReadFile path = Inr data"
    by (cases "os_ReadFile path") (simp_all add: loadConfig_def)
  from assms d obtain parsed where p: "yaml_Unmarshal data zero_Config = Inr parsed"
    by (cases "yaml_Unmarshal data zero_Config") (simp_all add: loadConfig_def)
  let ?c1 = "if PollInterval parsed = 0 then parsed\<lparr>PollInterval := 5\<rparr> else parsed"
  have c: "cfg = (if AppName ?c1 = [] then ?c1\<lparr>AppName := ''Battery Monitor''\<rparr> else ?c1)"
    using assms d p by (simp add: loadConfig_def Let_def)
  have a: "AppName cfg = (if AppName parsed = [] then ''Battery Monitor'' else AppName parsed)"
    unfolding c by simp
  have i: "PollInterval cfg = (if PollInterval parsed = 0 then 5 else PollInterval parsed)"
    unfolding c by simp
  have l: "LowBattery cfg = LowBattery parsed" "CriticalBattery cfg = CriticalBattery parsed"
    unfolding c by simp_all
  have "PollInterval cfg \<noteq> 0" "AppName cfg \<noteq> []"
    unfolding a i by simp_all
  with d p a i l show ?thesis by blast
qed

theorem loadConfig_defaults_witness:
  "loadConfig example_ReadFile example_Unmarshal ''battery-monitor.yaml'' =
     Inr (zero_Config\<lparr>AppName := ''Battery Monitor'', PollInterval := 5\<rparr>) \<and>
   PollInterval (zero_Config\<lparr>AppName := ''Battery Monitor'', PollInterval := 5\<rparr>) \<noteq> 0 \<and>
   AppName (zero_Config\<lparr>AppName := ''Battery Monitor'', PollInterval := 5\<rparr>) \<noteq> []"
proof -
  have loaded: "loadConfig example_ReadFile example_Unmarshal ''battery-monitor.yaml'' =
     Inr (zero_Config\<lparr>AppName := ''Battery Monitor'', PollInterval := 5\<rparr>)"
    by (simp add: loadConfig_def example_ReadFile_def example_Unmarshal_def zero_Config_def)
  show ?thesis
    using loaded loadConfig_defaults [OF loaded] by simp
qed

text \<open>
  The claim as stated promises a poll interval of at least 1. A file whose only key is
  \<^verbatim>\<open>poll_interval: -3\<close> loads, and the configuration returned has poll interval -3.
\<close>

theorem loadConfig_negative_interval_counterexample:
  "loadConfig example_ReadFile example_Unmarshal ''negative.yaml'' =
     Inr (zero_Config\<lparr>AppName := ''Battery Monitor'', PollInterval := - 3\<rparr>) \<and>
   PollInterval (zero_Config\<lparr>AppName := ''Battery Monitor'', PollInterval := - 3\<rparr>) < 1"
  by (simp add: loadConfig_def example_ReadFile_def example_Unmarshal_def zero_Config_def)

end
